theory Spec2Isabelle
  imports Main "HOL-Library.Word"
begin

unbundle bit_operations_syntax

section \<open>Python values the model needs\<close>

text \<open>
  Exceptions are values. Every function of the source that can raise returns
  \<open>error + 'a\<close>, with \<open>Inl\<close> for the exception. \<open>WinError\<close> carries the
  platform error code, \<open>COMError\<close> the HRESULT. \<open>Exception\<close> is the bare
  \<^verbatim>\<open>Exception("Current element is not a window...")\<close> of the window-handle backend,
  for which the earlier file has \<open>Win32NotAWindowError\<close>.
  All of them are instances of Python's \<^verbatim>\<open>Exception\<close> class, so an
  \<^verbatim>\<open>except Exception\<close> clause catches each of them.
\<close>

datatype error =
    WinError int
  | ValueError
  | IndexError
  | AttributeError
  | NotImplementedError
  | Exception
  | Win32NotAWindowError
  | UIAConditionNotCreatedError
  | COMError int

definition ebind :: "error + 'a \<Rightarrow> ('a \<Rightarrow> error + 'b) \<Rightarrow> error + 'b" where
  "ebind m f = (case m of Inl e \<Rightarrow> Inl e | Inr v \<Rightarrow> f v)"

text \<open>Truthiness of \<^verbatim>\<open>int | None\<close> and \<^verbatim>\<open>str | None\<close> in an \<^verbatim>\<open>if\<close>.\<close>

definition truthy_int :: "int option \<Rightarrow> bool" where
  "truthy_int v = (case v of None \<Rightarrow> False | Some n \<Rightarrow> n \<noteq> 0)"

definition truthy_str :: "string option \<Rightarrow> bool" where
  "truthy_str v = (case v of None \<Rightarrow> False | Some s \<Rightarrow> s \<noteq> [])"

text \<open>
  \<^verbatim>\<open>str.lower()\<close> on the ASCII letters; every other character is left as it is
  (strings are byte lists here, so the case mapping of non-ASCII letters is not modelled).
\<close>

definition lower_char :: "char \<Rightarrow> char" where
  "lower_char c =
     (if 65 \<le> (of_char c :: nat) \<and> (of_char c :: nat) \<le> 90
      then char_of ((of_char c :: nat) + 32) else c)"

definition lower :: "string \<Rightarrow> string" where
  "lower s = map lower_char s"

section \<open>Geometry (automate/common.py)\<close>

datatype Point = Point (Point_x: int) (Point_y: int)

text \<open>
  A \<^verbatim>\<open>Rect\<close> copies the four edges of a native \<^verbatim>\<open>RECT\<close>, whose fields
  are C \<^verbatim>\<open>LONG\<close>s: a tuple given to the constructor is stored into such a
  structure first, which keeps the low 32 bits of each entry, read as signed.
  (The fields are named \<open>rect_left\<close> ... here; \<open>top\<close> is a constant of HOL.)
\<close>

record Rect =
  rect_left :: int
  rect_top :: int
  rect_right :: int
  rect_bottom :: int

definition c_long :: "int \<Rightarrow> int" where
  "c_long v = sint (word_of_int v :: 32 word)"

definition Rect_init :: "int \<times> int \<times> int \<times> int \<Rightarrow> Rect" where
  "Rect_init native_rect =
     (case native_rect of (l, t, r, b) \<Rightarrow>
        \<lparr>rect_left = c_long l, rect_top = c_long t,
         rect_right = c_long r, rect_bottom = c_long b\<rparr>)"

definition width :: "Rect \<Rightarrow> int" where
  "width self = rect_right self - rect_left self"

definition height :: "Rect \<Rightarrow> int" where
  "height self = rect_bottom self - rect_top self"

text \<open>
  \<^verbatim>\<open>int(float(w) / 2.0)\<close>: the edges are 32-bit, so \<open>\<bar>w\<bar> < 2 ^ 32\<close>, the
  conversion to a double and the halving are exact, and \<^verbatim>\<open>int\<close> drops the
  fraction towards zero.
\<close>

definition int_half :: "int \<Rightarrow> int" where
  "int_half w = (if 0 \<le> w then w div 2 else - ((- w) div 2))"

definition center :: "Rect \<Rightarrow> Point" where
  "center self =
     Point (rect_left self + int_half (width self)) (rect_top self + int_half (height self))"

definition has_area :: "Rect \<Rightarrow> bool" where
  "has_area self \<longleftrightarrow>
     rect_right self - rect_left self \<noteq> 0 \<and> rect_bottom self - rect_top self \<noteq> 0"

text \<open>The closed box \<open>[left, right] \<times> [top, bottom]\<close> of a rectangle.\<close>

definition in_box :: "Rect \<Rightarrow> Point \<Rightarrow> bool" where
  "in_box r p \<longleftrightarrow>
     rect_left r \<le> Point_x p \<and> Point_x p \<le> rect_right r \<and>
     rect_top r \<le> Point_y p \<and> Point_y p \<le> rect_bottom r"


section \<open>The user32 wrappers (automate/winterop/user32.py)\<close>

text \<open>
  The platform is not part of the repository. Each native call is represented by the raw
  values it hands back (its return value, what it stored through its out-parameters and,
  where the wrapper reads it, the thread's last-error code); the wrappers below are the
  Python functions of \<^verbatim>\<open>user32.py\<close> applied to those raw values. The wrappers of
  \<^verbatim>\<open>win_api/win32_wrapper.py\<close> make the same checks.
\<close>

definition GetWindowTextW :: "int \<times> string \<Rightarrow> string" where
  "GetWindowTextW raw = (case raw of (name_length, buffer) \<Rightarrow>
     if name_length \<le> 0 then [] else buffer)"

definition GetClassNameW :: "int \<times> string \<Rightarrow> string" where
  "GetClassNameW raw = (case raw of (name_length, buffer) \<Rightarrow>
     if name_length \<le> 0 then [] else buffer)"

definition GetWindowThreadProcessId :: "int \<times> int \<times> int \<Rightarrow> error + int \<times> int" where
  "GetWindowThreadProcessId raw = (case raw of (tid, pid_value, last_error) \<Rightarrow>
     if tid = 0 then Inl (WinError last_error) else Inr (tid, pid_value))"


definition GetWindowLongW :: "int \<times> int \<Rightarrow> error + int" where
  "GetWindowLongW raw = (case raw of (ok, err) \<Rightarrow>
     if ok = 0 \<and> err \<noteq> 0 then Inl (WinError err) else Inr ok)"


definition IsWindowEnabled :: "int \<Rightarrow> bool" where
  "IsWindowEnabled raw \<longleftrightarrow> raw \<noteq> 0"

text \<open>Constants of \<^verbatim>\<open>win32_constants\<close>, with the values \<^verbatim>\<open>win32_wrapper.py\<close> lists.\<close>

definition GWL_ID :: int where "GWL_ID = - 12"
definition GWL_STYLE :: int where "GWL_STYLE = - 16"

section \<open>Elements of the window-handle backend (automate/impl/win32.py)\<close>

text \<open>
  What the platform answers about one window handle at the time of a traversal.
\<close>

record window_data =
  hwnd :: int
  GetWindowTextW_raw :: "int \<times> string"
  GetClassNameW_raw :: "int \<times> string"
  GetWindowThreadProcessId_raw :: "int \<times> int \<times> int"
  GetWindowLongW_raw :: "int \<Rightarrow> int \<times> int"
  GetWindowRect_raw :: "int \<times> (int \<times> int \<times> int \<times> int) \<times> int"
  IsWindowVisible_raw :: int
  IsWindowEnabled_raw :: int
  EnumChildWindows_raw :: "int \<times> int"

text \<open>
  An element is a node of the window tree as one traversal sees it: the handle's data
  and the elements that \<^verbatim>\<open>EnumChildWindows\<close> delivers for it, in the order of
  delivery. \<^verbatim>\<open>Element(hwnd)\<close> objects are created afresh at every step and hold
  nothing but caches of these values.
\<close>

datatype Element = Element (window: window_data) (child_windows: "Element list")

definition Element_title :: "window_data \<Rightarrow> string" where
  "Element_title w = GetWindowTextW (GetWindowTextW_raw w)"

definition Element_class_name :: "window_data \<Rightarrow> string" where
  "Element_class_name w = GetClassNameW (GetClassNameW_raw w)"

definition Element_control_id :: "window_data \<Rightarrow> error + int" where
  "Element_control_id w = GetWindowLongW (GetWindowLongW_raw w GWL_ID)"


definition Element_pid :: "window_data \<Rightarrow> error + int" where
  "Element_pid w = ebind (GetWindowThreadProcessId (GetWindowThreadProcessId_raw w))
     (\<lambda>(tid, pid_value). Inr pid_value)"




text \<open>
  \<^verbatim>\<open>children()\<close>: the callback appends an element for every handle and returns
  \<^verbatim>\<open>True\<close>, so the enumeration runs to its end; the wrapper
  \<^verbatim>\<open>user32.EnumChildWindows\<close> then raises when the native call returned 0 with a
  non-zero last error.
\<close>

definition Element_children :: "Element \<Rightarrow> error + Element list" where
  "Element_children self = (case EnumChildWindows_raw (window self) of (ok, err) \<Rightarrow>
     if ok = 0 \<and> err \<noteq> 0 then Inl (WinError err) else Inr (child_windows self))"

subsection \<open>Conditions\<close>

text \<open>
  A title refinement is a string or a compiled pattern. A compiled pattern is
  represented by what \<^verbatim>\<open>re.match(pattern, s) is not None\<close> answers for each
  string \<open>s\<close>; a pattern object is always truthy.
\<close>

datatype title_spec = Str string | Pattern "string \<Rightarrow> bool"

record Condition =
  pid :: "int option"
  control_id :: "int option"
  class_name :: "string option"
  title :: "title_spec option"

definition Condition_default :: Condition where
  "Condition_default = \<lparr>pid = None, control_id = None, class_name = None, title = None\<rparr>"

text \<open>\<^verbatim>\<open>Element.satisfies\<close> of automate/impl/win32.py.\<close>

definition satisfies :: "Element \<Rightarrow> Condition \<Rightarrow> error + bool" where
  "satisfies self condition =
     ebind (if truthy_int (pid condition)
            then ebind (Element_pid (window self)) (\<lambda>p. Inr (the (pid condition) = p))
            else Inr False) (\<lambda>result.
     ebind (if truthy_int (control_id condition)
            then ebind (Element_control_id (window self))
                   (\<lambda>c. Inr (the (control_id condition) = c))
            else Inr result) (\<lambda>result.
     ebind (if truthy_str (class_name condition)
            then Inr (the (class_name condition) = Element_class_name (window self))
            else Inr result) (\<lambda>result.
     (case title condition of
        None \<Rightarrow> Inr result
      | Some (Str t) \<Rightarrow>
          if t \<noteq> [] then Inr (lower t = lower (Element_title (window self)))
          else Inr result
      | Some (Pattern p) \<Rightarrow> Inr (p (Element_title (window self)))))))"


subsection \<open>Search\<close>

lemma Element_children_size:
  "Element_children e = Inr cs \<Longrightarrow> size_list size cs < size e"
  by (cases e) (auto simp: Element_children_def split: prod.splits if_splits)

text \<open>
  \<^verbatim>\<open>find_first\<close>: the loop over \<^verbatim>\<open>element.children()\<close> is \<open>find_first_for\<close>.
  An element object is always truthy, so \<^verbatim>\<open>if found := ...\<close> tests for
  \<^verbatim>\<open>None\<close>.
\<close>

function find_first :: "Condition \<Rightarrow> Element \<Rightarrow> error + Element option"
  and find_first_for :: "Condition \<Rightarrow> Element list \<Rightarrow> error + Element option" where
  "find_first condition element =
     (case Element_children element of
        Inl e \<Rightarrow> Inl e
      | Inr children \<Rightarrow> find_first_for condition children)"
| "find_first_for condition [] = Inr None"
| "find_first_for condition (child # rest) =
     (case satisfies child condition of
        Inl e \<Rightarrow> Inl e
      | Inr True \<Rightarrow> Inr (Some child)
      | Inr False \<Rightarrow>
         (case find_first condition child of
            Inl e \<Rightarrow> Inl e
          | Inr (Some found) \<Rightarrow> Inr (Some found)
          | Inr None \<Rightarrow> find_first_for condition rest))"
  by pat_completeness auto
termination
  by (relation "measure (\<lambda>x. case x of Inl (c, e) \<Rightarrow> size e
                                      | Inr (c, cs) \<Rightarrow> size_list size cs)")
     (auto dest: Element_children_size)

declare find_first.simps(1) [simp del]

text \<open>
  \<^verbatim>\<open>ifind_all\<close> is a generator: its run is the list of the elements it yields, in
  order, and the exception that ended it, if one did.
\<close>

function ifind_all :: "Condition \<Rightarrow> Element \<Rightarrow> Element list \<times> error option"
  and ifind_all_for :: "Condition \<Rightarrow> Element list \<Rightarrow> Element list \<times> error option" where
  "ifind_all condition element =
     (case Element_children element of
        Inl e \<Rightarrow> ([], Some e)
      | Inr children \<Rightarrow> ifind_all_for condition children)"
| "ifind_all_for condition [] = ([], None)"
| "ifind_all_for condition (child # rest) =
     (case satisfies child condition of
        Inl e \<Rightarrow> ([], Some e)
      | Inr b \<Rightarrow>
         (case ifind_all condition child of
            (ys, Some e) \<Rightarrow> ((if b then [child] else []) @ ys, Some e)
          | (ys, None) \<Rightarrow>
             (case ifind_all_for condition rest of
                (zs, r) \<Rightarrow> ((if b then [child] else []) @ ys @ zs, r))))"
  by pat_completeness auto
termination
  by (relation "measure (\<lambda>x. case x of Inl (c, e) \<Rightarrow> size e
                                      | Inr (c, cs) \<Rightarrow> size_list size cs)")
     (auto dest: Element_children_size)

declare ifind_all.simps(1) [simp del]

text \<open>\<^verbatim>\<open>find_all\<close> is \<^verbatim>\<open>list(self.ifind_all(...))\<close>: it raises what the generator raises.\<close>

definition find_all :: "Condition \<Rightarrow> Element \<Rightarrow> error + Element list" where
  "find_all condition element =
     (case ifind_all condition element of
        (ys, None) \<Rightarrow> Inr ys
      | (ys, Some e) \<Rightarrow> Inl e)"

text \<open>Every child enumeration below (and at) an element succeeds.\<close>

fun enumerable :: "Element \<Rightarrow> bool" where
  "enumerable (Element w cs) \<longleftrightarrow>
     Element_children (Element w cs) = Inr cs \<and> list_all enumerable cs"

section \<open>The earlier window-handle backend (src/automate/impl/win32.py)\<close>

text \<open>
  The earlier file keeps the condition as a class with a method \<^verbatim>\<open>matches\<close> and a
  subclass \<^verbatim>\<open>TrueCondition\<close>, and enumerates children through pywin32's
  \<^verbatim>\<open>win32gui.EnumChildWindows\<close>, which is outside the repository: it is taken to
  deliver every child handle to the callback. The functions of this file that share a
  name with the current one are primed.
\<close>

datatype ConditionObj = PlainCondition Condition | TrueCondition

definition matches :: "ConditionObj \<Rightarrow> Element option \<Rightarrow> error + bool" where
  "matches self element =
     (case self of
        TrueCondition \<Rightarrow> Inr True
      | PlainCondition c \<Rightarrow>
         (case element of
            None \<Rightarrow> Inr False
          | Some el \<Rightarrow>
             ebind (if truthy_int (pid c)
                    then ebind (Element_pid (window el)) (\<lambda>p. Inr (the (pid c) = p))
                    else Inr False) (\<lambda>result.
             ebind (if truthy_int (control_id c)
                    then ebind (Element_control_id (window el))
                           (\<lambda>i. Inr (the (control_id c) = i))
                    else Inr result) (\<lambda>result.
             ebind (if truthy_str (class_name c)
                    then Inr (the (class_name c) = Element_class_name (window el))
                    else Inr result) (\<lambda>result.
             (case title c of
                None \<Rightarrow> Inr result
              | Some (Str t) \<Rightarrow>
                  if t \<noteq> [] then Inr (lower t = lower (Element_title (window el)))
                  else Inr result
              | Some (Pattern p) \<Rightarrow> Inr (p (Element_title (window el)))))))))"

fun find_first' :: "ConditionObj \<Rightarrow> Element \<Rightarrow> error + Element option"
  and find_first_for' :: "ConditionObj \<Rightarrow> Element list \<Rightarrow> error + Element option" where
  "find_first' condition (Element w children) = find_first_for' condition children"
| "find_first_for' condition [] = Inr None"
| "find_first_for' condition (child # rest) =
     (case matches condition (Some child) of
        Inl e \<Rightarrow> Inl e
      | Inr True \<Rightarrow> Inr (Some child)
      | Inr False \<Rightarrow>
         (case find_first' condition child of
            Inl e \<Rightarrow> Inl e
          | Inr (Some found) \<Rightarrow> Inr (Some found)
          | Inr None \<Rightarrow> find_first_for' condition rest))"

text \<open>\<^verbatim>\<open>find_all\<close> collects into \<^verbatim>\<open>results\<close>; the accumulator of the loop is \<open>results\<close>.\<close>

fun find_all' :: "ConditionObj \<Rightarrow> Element \<Rightarrow> error + Element list"
  and find_all_for' :: "ConditionObj \<Rightarrow> Element list \<Rightarrow> Element list \<Rightarrow> error + Element list"
  where
  "find_all' condition (Element w children) = find_all_for' condition children []"
| "find_all_for' condition [] results = Inr results"
| "find_all_for' condition (child # rest) results =
     (case matches condition (Some child) of
        Inl e \<Rightarrow> Inl e
      | Inr b \<Rightarrow>
         (case find_all' condition child of
            Inl e \<Rightarrow> Inl e
          | Inr found \<Rightarrow>
              find_all_for' condition rest
                ((if b then results @ [child] else results) @ found)))"


section \<open>Window enumeration (automate/winterop/user32.py)\<close>

text \<open>
  A Python callback handed to an enumeration takes a handle and returns a truth value;
  it may raise, it may change the variables of the function that defines it (its state
  \<open>'s\<close>, kept also when it raises), and it may fail to return (\<open>None\<close>).
\<close>

type_synonym ('h, 's) callback = "'h \<Rightarrow> 's \<Rightarrow> ((error + bool) \<times> 's) option"

text \<open>
  The platform's part of \<^verbatim>\<open>EnumWindows\<close> and \<^verbatim>\<open>EnumChildWindows\<close>: the native
  callback is called for each handle in turn; enumeration goes on while it returns a
  non-zero value (``continue'') and ends at once when it returns 0 (``stop''). The
  result tells whether the callback stopped the enumeration.
\<close>

fun enum_native :: "('h \<Rightarrow> 's \<Rightarrow> (int \<times> 's) option) \<Rightarrow> 'h list \<Rightarrow> 's \<Rightarrow> (bool \<times> 's) option"
  where
  "enum_native proc [] s = Some (False, s)"
| "enum_native proc (h # hs) s =
     (case proc h s of
        None \<Rightarrow> None
      | Some (r, s') \<Rightarrow> if r = 0 then Some (True, s') else enum_native proc hs s')"

text \<open>The inner \<^verbatim>\<open>_callback\<close> of \<^verbatim>\<open>EnumWindows\<close>, which ctypes hands to the platform.\<close>

definition EnumWindows_callback :: "('h, 's) callback \<Rightarrow> 'h \<Rightarrow> 's \<Rightarrow> (int \<times> 's) option" where
  "EnumWindows_callback callback h s =
     (case callback h s of
        None \<Rightarrow> None
      | Some (Inr r, s') \<Rightarrow> Some (if r then 1 else 0, s')
      | Some (Inl e, s') \<Rightarrow> Some (1, s'))"

text \<open>
  \<^verbatim>\<open>EnumWindows(callback)\<close>. \<open>handles\<close> are the top-level windows in the order the
  platform enumerates them; \<open>raw\<close> gives the native call's return value and the last
  error after it, which may depend on whether the callback stopped the enumeration.
\<close>

definition EnumWindows :: "'h list \<Rightarrow> (bool \<Rightarrow> int \<times> int) \<Rightarrow> ('h, 's) callback \<Rightarrow> 's
    \<Rightarrow> ((error + unit) \<times> 's) option" where
  "EnumWindows handles raw callback s =
     (case enum_native (EnumWindows_callback callback) handles s of
        None \<Rightarrow> None
      | Some (stopped, s') \<Rightarrow>
         (case raw stopped of (ok, err) \<Rightarrow>
            if ok = 0 \<and> err \<noteq> 0 then Some (Inl (WinError err), s') else Some (Inr (), s')))"

text \<open>The inner \<^verbatim>\<open>_callback\<close> of \<^verbatim>\<open>EnumChildWindows\<close>.\<close>

definition EnumChildWindows_callback :: "('h, 's) callback \<Rightarrow> 'h \<Rightarrow> 's \<Rightarrow> (int \<times> 's) option"
  where
  "EnumChildWindows_callback callback h s =
     (case callback h s of
        None \<Rightarrow> None
      | Some (Inr r, s') \<Rightarrow> Some (if r then 1 else 0, s')
      | Some (Inl e, s') \<Rightarrow> Some (1, s'))"

definition EnumChildWindows :: "'h list \<Rightarrow> (bool \<Rightarrow> int \<times> int) \<Rightarrow> ('h, 's) callback \<Rightarrow> 's
    \<Rightarrow> ((error + unit) \<times> 's) option" where
  "EnumChildWindows handles raw callback s =
     (case enum_native (EnumChildWindows_callback callback) handles s of
        None \<Rightarrow> None
      | Some (stopped, s') \<Rightarrow>
         (case raw stopped of (ok, err) \<Rightarrow>
            if ok = 0 \<and> err \<noteq> 0 then Some (Inl (WinError err), s') else Some (Inr (), s')))"

text \<open>
  A callback for examples: it raises on the handle 1 and otherwise records the handle
  and asks to continue.
\<close>

definition raising_on_1 :: "(int, int list) callback" where
  "raising_on_1 h seen =
     (if h = 1 then Some (Inl ValueError, seen) else Some (Inr True, seen @ [h]))"

section \<open>Conditions of the accessibility backend (automate/impl/uia.py)\<close>

text \<open>
  The automation engine is a COM object outside the repository. Its factory calls are
  parameters: each returns a native condition (of an arbitrary type \<open>'n\<close>) or fails
  with an HRESULT, which comtypes raises as \<^verbatim>\<open>COMError\<close>.
\<close>

datatype Property = ProcessId | ControlType | ClassName | Title

datatype property_value = IntValue int | StrValue string

record 'n IUIAutomation =
  CreatePropertyConditionEx :: "Property \<Rightarrow> property_value \<Rightarrow> int + 'n"
  CreateAndConditionFromArray :: "'n list \<Rightarrow> int + 'n"
  CreateTrueCondition :: "int + 'n"

definition com :: "int + 'a \<Rightarrow> error + 'a" where
  "com r = (case r of Inl hresult \<Rightarrow> Inl (COMError hresult) | Inr v \<Rightarrow> Inr v)"

text \<open>
  The class \<^verbatim>\<open>Condition\<close>: \<open>native_opt\<close> is its field \<^verbatim>\<open>_native\<close>. The entries of
  \<^verbatim>\<open>reprs\<close> are kept as the pairs they are formatted from.
\<close>

record 'n UIACondition =
  native_opt :: "'n option"
  conditions :: "'n list"
  reprs :: "(Property \<times> property_value) list"

definition UIACondition_init :: "'n UIACondition" where
  "UIACondition_init = \<lparr>native_opt = None, conditions = [], reprs = []\<rparr>"

definition create_property_condition :: "'n IUIAutomation \<Rightarrow> Property \<Rightarrow> property_value
    \<Rightarrow> error + 'n" where
  "create_property_condition uia property_id v = com (CreatePropertyConditionEx uia property_id v)"

text \<open>
  The refinements \<^verbatim>\<open>pid\<close>, \<^verbatim>\<open>control_type\<close>, \<^verbatim>\<open>class_name\<close> and
  \<^verbatim>\<open>title\<close>: each returns a new condition with one more native condition. A control
  type is given by the integer value of its \<^verbatim>\<open>ControlType\<close> member.
\<close>

definition refine :: "'n IUIAutomation \<Rightarrow> 'n UIACondition \<Rightarrow> Property \<Rightarrow> property_value
    \<Rightarrow> error + 'n UIACondition" where
  "refine uia self property_id v =
     ebind (create_property_condition uia property_id v) (\<lambda>cond.
       Inr \<lparr>native_opt = None, conditions = conditions self @ [cond],
            reprs = reprs self @ [(property_id, v)]\<rparr>)"

definition UIACondition_pid :: "'n IUIAutomation \<Rightarrow> 'n UIACondition \<Rightarrow> int \<Rightarrow> error + 'n UIACondition"
  where "UIACondition_pid uia self p = refine uia self ProcessId (IntValue p)"

definition UIACondition_control_type :: "'n IUIAutomation \<Rightarrow> 'n UIACondition \<Rightarrow> int
    \<Rightarrow> error + 'n UIACondition"
  where "UIACondition_control_type uia self ct = refine uia self ControlType (IntValue ct)"

definition UIACondition_class_name :: "'n IUIAutomation \<Rightarrow> 'n UIACondition \<Rightarrow> string
    \<Rightarrow> error + 'n UIACondition"
  where "UIACondition_class_name uia self cn = refine uia self ClassName (StrValue cn)"

definition UIACondition_title :: "'n IUIAutomation \<Rightarrow> 'n UIACondition \<Rightarrow> string
    \<Rightarrow> error + 'n UIACondition"
  where "UIACondition_title uia self t = refine uia self Title (StrValue t)"

text \<open>The property \<^verbatim>\<open>native\<close>, which materializes the condition.\<close>

definition native :: "'n IUIAutomation \<Rightarrow> 'n UIACondition \<Rightarrow> error + 'n" where
  "native uia self =
     (case native_opt self of
        Some n \<Rightarrow> Inr n
      | None \<Rightarrow>
         (if length (conditions self) = 0 then Inl UIAConditionNotCreatedError
          else if length (conditions self) > 1
               then com (CreateAndConditionFromArray uia (conditions self))
          else Inr (conditions self ! 0)))"

text \<open>The module constant \<^verbatim>\<open>TRUE_CONDITION\<close>, the match-everything sentinel.\<close>

definition TRUE_CONDITION :: "'n IUIAutomation \<Rightarrow> error + 'n UIACondition" where
  "TRUE_CONDITION uia =
     ebind (com (CreateTrueCondition uia)) (\<lambda>n.
       Inr \<lparr>native_opt = Some n, conditions = [], reprs = []\<rparr>)"

text \<open>
  A condition built by chaining refinements onto \<^verbatim>\<open>Condition()\<close>, as in
  \<^verbatim>\<open>Condition().control_type(...).title(...)\<close>.
\<close>

datatype refinement =
    ByPid int
  | ByControlType int
  | ByClassName string
  | ByTitle string

fun apply_refinement :: "'n IUIAutomation \<Rightarrow> 'n UIACondition \<Rightarrow> refinement
    \<Rightarrow> error + 'n UIACondition" where
  "apply_refinement uia c (ByPid p) = UIACondition_pid uia c p"
| "apply_refinement uia c (ByControlType ct) = UIACondition_control_type uia c ct"
| "apply_refinement uia c (ByClassName cn) = UIACondition_class_name uia c cn"
| "apply_refinement uia c (ByTitle t) = UIACondition_title uia c t"

fun chain :: "'n IUIAutomation \<Rightarrow> 'n UIACondition \<Rightarrow> refinement list \<Rightarrow> error + 'n UIACondition"
  where
  "chain uia c [] = Inr c"
| "chain uia c (r # rs) = ebind (apply_refinement uia c r) (\<lambda>c'. chain uia c' rs)"

section \<open>Conditions of the earlier accessibility backend (src/automate/impl/uia.py)\<close>

text \<open>
  The earlier file builds conditions in \<^verbatim>\<open>UIAContext.create_condition\<close>. Its class
  \<^verbatim>\<open>Condition\<close> holds a native condition (read through the property
  \<^verbatim>\<open>condition\<close>, which returns the field as it is) and a pattern for the title.
\<close>

record 'n UIACondition' =
  condition :: "'n option"
  re_pattern :: "(string \<Rightarrow> bool) option"

definition create_property_condition' :: "'n IUIAutomation \<Rightarrow> Property \<Rightarrow> property_value
    \<Rightarrow> error + 'n UIACondition'" where
  "create_property_condition' uia property_id v =
     ebind (com (CreatePropertyConditionEx uia property_id v)) (\<lambda>native_condition.
       Inr \<lparr>condition = Some native_condition, re_pattern = None\<rparr>)"

definition condition_from_array :: "'n IUIAutomation \<Rightarrow> 'n UIACondition' list
    \<Rightarrow> error + 'n UIACondition'" where
  "condition_from_array uia cs =
     (let native_conditions = List.map_filter condition cs;
          pattern = fold (\<lambda>c acc. case re_pattern c of Some p \<Rightarrow> Some p | None \<Rightarrow> acc) cs None
      in ebind (if native_conditions \<noteq> []
                then com (CreateAndConditionFromArray uia native_conditions)
                else com (CreateTrueCondition uia)) (\<lambda>native_condition.
           Inr \<lparr>condition = Some native_condition, re_pattern = pattern\<rparr>))"

text \<open>
  \<^verbatim>\<open>create_condition(pid, control_type, class_name, title)\<close>; \<open>conditions\<close> grows by
  one entry for each argument that is truthy.
\<close>

definition create_condition :: "'n IUIAutomation \<Rightarrow> int option \<Rightarrow> int option \<Rightarrow> string option
    \<Rightarrow> title_spec option \<Rightarrow> error + 'n UIACondition'" where
  "create_condition uia pid_arg control_type_arg class_name_arg title_arg =
     (if \<not> truthy_int pid_arg \<and> \<not> truthy_int control_type_arg \<and> \<not> truthy_str class_name_arg
         \<and> \<not> (case title_arg of None \<Rightarrow> False | Some (Str t) \<Rightarrow> t \<noteq> [] | Some (Pattern p) \<Rightarrow> True)
      then Inl ValueError
      else
       ebind (if truthy_int pid_arg
              then ebind (create_property_condition' uia ProcessId (IntValue (the pid_arg)))
                     (\<lambda>c. Inr [c])
              else Inr []) (\<lambda>conditions1.
       ebind (if truthy_int control_type_arg
              then ebind (create_property_condition' uia ControlType
                            (IntValue (the control_type_arg)))
                     (\<lambda>c. Inr (conditions1 @ [c]))
              else Inr conditions1) (\<lambda>conditions2.
       ebind (if truthy_str class_name_arg
              then ebind (create_property_condition' uia ClassName
                            (StrValue (the class_name_arg)))
                     (\<lambda>c. Inr (conditions2 @ [c]))
              else Inr conditions2) (\<lambda>conditions3.
       ebind (case title_arg of
                None \<Rightarrow> Inr conditions3
              | Some (Str t) \<Rightarrow>
                 if t \<noteq> []
                 then ebind (create_property_condition' uia Title (StrValue t))
                        (\<lambda>c. Inr (conditions3 @ [c]))
                 else Inr conditions3
              | Some (Pattern p) \<Rightarrow>
                 Inr (conditions3 @ [\<lparr>condition = None, re_pattern = Some p\<rparr>])) (\<lambda>conditions4.
       if length conditions4 > 1 then condition_from_array uia conditions4
       else if length conditions4 = 1 then Inr (conditions4 ! 0)
       else Inl UIAConditionNotCreatedError)))))"

section \<open>The tree walker\<close>












section \<open>Elements of the accessibility backend (automate/impl/uia.py)\<close>













section \<open>The platform as the focus code sees it\<close>

text \<open>
  The calls that change the state of the platform, and \<^verbatim>\<open>time.sleep\<close> (its duration
  is left out).
\<close>

datatype os_call =
    ShowWindow int int
  | SetWindowPos int int int int int int int
  | AttachThreadInput int int bool
  | SetForegroundWindow int
  | Sleep

text \<open>
  The state of the platform. The first group of fields are the raw results of the
  queries; \<open>IsIconic_raw\<close> and \<open>IsZoomed_raw\<close>, which the code asks after it has
  changed the platform's state, may depend on the calls made so far. \<open>respond\<close> gives
  the return value and the last error of a state-changing call, given the calls made
  before it: the platform may refuse any call at any time. \<open>calls\<close> records the
  state-changing calls in order, and \<open>attached\<close> the thread-input attachments in
  force: an \<^verbatim>\<open>AttachThreadInput\<close> call that returns non-zero adds or removes its pair.

  \<^verbatim>\<open>user32.get_title_bar_info\<close>, which \<^verbatim>\<open>is_real_window\<close> calls, is not defined in
  \<^verbatim>\<open>user32.py\<close> (the module defines \<^verbatim>\<open>GetTitleBarInfo\<close>). What the call gives,
  the \<^verbatim>\<open>rgstate\<close> array of a title-bar record or an exception, is a parameter; with
  the module as it stands every call raises \<^verbatim>\<open>AttributeError\<close>.

  \<^verbatim>\<open>win32gui.EnumWindows\<close> of pywin32, which the earlier file calls, is outside the
  repository and a parameter as well: given a callback and the initial value of the
  variable the callback assigns, it returns normally or raises, and leaves the variable
  with some value.
\<close>

record os =
  top_level :: "int list"
  EnumWindows_raw :: "bool \<Rightarrow> int \<times> int"
  win :: "int \<Rightarrow> window_data"
  IsWindow_raw :: "int \<Rightarrow> int"
  GetForegroundWindow_raw :: int
  GetAncestor_raw :: "int \<Rightarrow> int \<Rightarrow> int \<times> int"
  GetLastActivePopup_raw :: "int \<Rightarrow> int"
  get_title_bar_info :: "int \<Rightarrow> error + int list"
  win32gui_EnumWindows :: "(int \<Rightarrow> int option \<Rightarrow> (error + bool) \<times> int option) \<Rightarrow> int option
    \<Rightarrow> (error + unit) \<times> int option"
  GetCurrentProcessId_raw :: int
  ProcessIdToSessionId_raw :: "int \<Rightarrow> int \<times> int \<times> int"
  IsIconic_raw :: "os_call list \<Rightarrow> int \<Rightarrow> int"
  IsZoomed_raw :: "os_call list \<Rightarrow> int \<Rightarrow> int"
  respond :: "os_call list \<Rightarrow> os_call \<Rightarrow> int \<times> int"
  calls :: "os_call list"
  attached :: "(int \<times> int) set"

text \<open>A state-changing native call: it is recorded, and answered by \<open>respond\<close>.\<close>

definition native_call :: "os_call \<Rightarrow> os \<Rightarrow> (int \<times> int) \<times> os" where
  "native_call c s =
     (respond s (calls s) c,
      s\<lparr>calls := calls s @ [c],
        attached :=
          (case c of
             AttachThreadInput a b f \<Rightarrow>
               if fst (respond s (calls s) c) = 0 then attached s
               else if f then insert (a, b) (attached s)
               else attached s - {(a, b)}
           | _ \<Rightarrow> attached s)\<rparr>)"

subsection \<open>Wrappers of user32.py and kernel32.py\<close>















subsection \<open>Sequencing\<close>



section \<open>Windows and focus (automate/impl/win32.py)\<close>


























section \<open>Windows and focus in the earlier file (src/automate/impl/win32.py)\<close>







section \<open>Properties of matching and search\<close>

text \<open>
  A window for examples: every native call on it succeeds; \<open>h\<close> is its handle, \<open>p\<close> the
  id of its process, \<open>cls\<close> its class name and \<open>t\<close> its title.
\<close>

definition sample_window :: "int \<Rightarrow> int \<Rightarrow> string \<Rightarrow> string \<Rightarrow> window_data" where
  "sample_window h p cls t =
     \<lparr>hwnd = h,
      GetWindowTextW_raw = (int (length t), t),
      GetClassNameW_raw = (int (length cls), cls),
      GetWindowThreadProcessId_raw = (1, p, 0),
      GetWindowLongW_raw = (\<lambda>nIndex. (0, 0)),
      GetWindowRect_raw = (1, (0, 0, 10, 10), 0),
      IsWindowVisible_raw = 1,
      IsWindowEnabled_raw = 1,
      EnumChildWindows_raw = (1, 0)\<rparr>"

text \<open>
  The strict descendants of an element in depth-first pre-order: each child, followed by
  its own descendants, before the next child.
\<close>

fun preorder_descendants :: "Element \<Rightarrow> Element list" where
  "preorder_descendants (Element w cs) =
     concat (map (\<lambda>c. c # preorder_descendants c) cs)"

definition head_opt :: "'a list \<Rightarrow> 'a option" where
  "head_opt xs = (case xs of [] \<Rightarrow> None | x # _ \<Rightarrow> Some x)"

text \<open>What a consumer that stops at the first yielded element gets from a generator run.\<close>

definition first_yield :: "Element list \<times> error option \<Rightarrow> error + Element option" where
  "first_yield run = (case run of
       (y # ys, r) \<Rightarrow> Inr (Some y)
     | ([], None) \<Rightarrow> Inr None
     | ([], Some e) \<Rightarrow> Inl e)"

lemma first_yield_simps [simp]:
  "first_yield (y # ys, r) = Inr (Some y)"
  "first_yield ([], None) = Inr None"
  "first_yield ([], Some e) = Inl e"
  by (simp_all add: first_yield_def)

lemma head_opt_simps [simp]:
  "head_opt [] = None" "head_opt (x # xs) = Some x"
  by (simp_all add: head_opt_def)

subsection \<open>The empty condition\<close>

lemma satisfies_default: "satisfies e Condition_default = Inr False"
  by (simp add: satisfies_def Condition_default_def truthy_int_def truthy_str_def ebind_def)

lemma matches_default: "matches (PlainCondition Condition_default) x = Inr False"
  by (simp add: matches_def Condition_default_def truthy_int_def truthy_str_def ebind_def
           split: option.splits)


lemma ifind_all_for_default:
  "(\<And>x. x \<in> set cs \<Longrightarrow> enumerable x \<Longrightarrow> ifind_all Condition_default x = ([], None)) \<Longrightarrow>
   list_all enumerable cs \<Longrightarrow> ifind_all_for Condition_default cs = ([], None)"
  by (induction cs) (simp_all add: satisfies_default)

lemma ifind_all_default:
  "enumerable e \<Longrightarrow> ifind_all Condition_default e = ([], None)"
proof (induction e)
  case (Element w cs)
  then show ?case
    by (simp add: ifind_all_for_default ifind_all.simps(1))
qed

lemma ifind_all_for_default_yields:
  "(\<And>x. x \<in> set cs \<Longrightarrow> fst (ifind_all Condition_default x) = []) \<Longrightarrow>
   fst (ifind_all_for Condition_default cs) = []"
proof (induction cs)
  case Nil
  show ?case by simp
next
  case (Cons c cs)
  have c: "fst (ifind_all Condition_default c) = []"
    using Cons.prems by simp
  have r: "fst (ifind_all_for Condition_default cs) = []"
    using Cons.IH Cons.prems by simp
  obtain r1 where c': "ifind_all Condition_default c = ([], r1)"
    using c by (cases "ifind_all Condition_default c") simp
  obtain r2 where r': "ifind_all_for Condition_default cs = ([], r2)"
    using r by (cases "ifind_all_for Condition_default cs") simp
  show ?case
    by (cases r1) (simp_all add: satisfies_default c' r')
qed

lemma ifind_all_default_yields: "fst (ifind_all Condition_default e) = []"
proof (induction e)
  case (Element w cs)
  then show ?case
    by (cases "Element_children (Element w cs)")
       (auto simp: ifind_all.simps(1) Element_children_def ifind_all_for_default_yields
             split: prod.splits if_splits)
qed

lemma find_first_for'_default:
  "(\<And>x. x \<in> set cs \<Longrightarrow> find_first' (PlainCondition Condition_default) x = Inr None) \<Longrightarrow>
   find_first_for' (PlainCondition Condition_default) cs = Inr None"
  by (induction cs) (simp_all add: matches_default)

lemma find_first'_default:
  "find_first' (PlainCondition Condition_default) e = Inr None"
  by (induction e) (simp add: find_first_for'_default)

lemma find_all_for'_default:
  "(\<And>x. x \<in> set cs \<Longrightarrow> find_all' (PlainCondition Condition_default) x = Inr []) \<Longrightarrow>
   find_all_for' (PlainCondition Condition_default) cs acc = Inr acc"
  by (induction cs arbitrary: acc) (simp_all add: matches_default)

lemma find_all'_default:
  "find_all' (PlainCondition Condition_default) e = Inr []"
  by (induction e) (simp add: find_all_for'_default)

subsection \<open>The first match against the run of the generator\<close>

lemma find_first_first_yield:
  "find_first c e = first_yield (ifind_all c e)"
  "find_first_for c cs = first_yield (ifind_all_for c cs)"
proof (induction c e and c cs rule: find_first_find_first_for.induct)
  case (1 condition element)
  then show ?case
    by (cases "Element_children element") (simp_all add: find_first.simps(1) ifind_all.simps(1))
next
  case (2 condition)
  then show ?case by simp
next
  case (3 condition child rest)
  show ?case
  proof (cases "satisfies child condition")
    case (Inl e)
    then show ?thesis by simp
  next
    case (Inr b)
    show ?thesis
    proof (cases b)
      case True
      then show ?thesis using Inr
        by (cases "ifind_all condition child"; cases "ifind_all_for condition rest")
           (simp split: option.splits)
    next
      case False
      have bF: "b = False" using False by simp
      note ih1 = "3.IH"(1) [OF Inr bF]
      obtain ys r where run: "ifind_all condition child = (ys, r)"
        by (cases "ifind_all condition child")
      show ?thesis
      proof (cases ys)
        case (Cons y ys')
        then show ?thesis using Inr False ih1 run
          by (cases "ifind_all_for condition rest") (simp split: option.splits)
      next
        case Nil
        show ?thesis
        proof (cases r)
          case (Some e)
          then show ?thesis using Inr False ih1 run Nil by simp
        next
          case None
          have ff: "find_first condition child = Inr None"
            using ih1 run Nil None by simp
          note ih2 = "3.IH"(2) [OF Inr bF ff refl]
          show ?thesis using Inr False ff ih2 run Nil None
            by (cases "ifind_all_for condition rest") simp
        qed
      qed
    qed
  qed
qed

subsection \<open>The earlier find_all and its accumulator\<close>

lemma find_all_for'_append:
  "find_all_for' m cs (acc @ acc2) =
     (case find_all_for' m cs acc2 of Inl e \<Rightarrow> Inl e | Inr xs \<Rightarrow> Inr (acc @ xs))"
  by (induction cs arbitrary: acc acc2) (auto split: sum.splits)

lemma find_all_for'_acc:
  "find_all_for' m cs acc =
     (case find_all_for' m cs [] of Inl e \<Rightarrow> Inl e | Inr xs \<Rightarrow> Inr (acc @ xs))"
  using find_all_for'_append [of m cs acc "[]"] by simp

lemma find_first'_head_list:
  assumes A1: "\<And>x ys. x \<in> set cs \<Longrightarrow> find_all' m x = Inr ys \<Longrightarrow>
                 find_first' m x = Inr (head_opt ys)"
    and A2: "\<And>x. x \<in> set cs \<Longrightarrow> find_first' m x = Inr None \<Longrightarrow> find_all' m x = Inr []"
  shows "(\<forall>xs. find_all_for' m cs [] = Inr xs \<longrightarrow> find_first_for' m cs = Inr (head_opt xs)) \<and>
         (find_first_for' m cs = Inr None \<longrightarrow> find_all_for' m cs [] = Inr [])"
  using A1 A2
proof (induction cs)
  case Nil
  show ?case by simp
next
  case (Cons c cs)
  have A1': "find_first' m x = Inr (head_opt ys)"
    if "x \<in> set cs" "find_all' m x = Inr ys" for x ys
    using Cons.prems(1) [of x ys] that by simp
  have A2': "find_all' m x = Inr []" if "x \<in> set cs" "find_first' m x = Inr None" for x
    using Cons.prems(2) [of x] that by simp
  have IH: "(\<forall>xs. find_all_for' m cs [] = Inr xs \<longrightarrow> find_first_for' m cs = Inr (head_opt xs)) \<and>
         (find_first_for' m cs = Inr None \<longrightarrow> find_all_for' m cs [] = Inr [])"
  proof (rule Cons.IH)
    show "\<And>x ys. x \<in> set cs \<Longrightarrow> find_all' m x = Inr ys \<Longrightarrow> find_first' m x = Inr (head_opt ys)"
      by (rule A1')
    show "\<And>x. x \<in> set cs \<Longrightarrow> find_first' m x = Inr None \<Longrightarrow> find_all' m x = Inr []"
      by (rule A2')
  qed
  have C1: "find_first' m c = Inr (head_opt ys)" if "find_all' m c = Inr ys" for ys
    using Cons.prems(1) [of c ys] that by simp
  have C2: "find_all' m c = Inr []" if "find_first' m c = Inr None"
    using Cons.prems(2) [of c] that by simp
  have goal1: "find_first_for' m (c # cs) = Inr (head_opt xs)"
    if all: "find_all_for' m (c # cs) [] = Inr xs" for xs
  proof -
    obtain b where b: "matches m (Some c) = Inr b"
      using all by (cases "matches m (Some c)") simp_all
    obtain found where found: "find_all' m c = Inr found"
      using all b by (cases "find_all' m c") simp_all
    have "find_all_for' m (c # cs) [] = find_all_for' m cs ((if b then [c] else []) @ found)"
      using b found by simp
    also have "\<dots> = (case find_all_for' m cs [] of Inl e \<Rightarrow> Inl e
        | Inr ys \<Rightarrow> Inr (((if b then [c] else []) @ found) @ ys))"
      by (rule find_all_for'_acc)
    finally have eq: "find_all_for' m (c # cs) [] =
       (case find_all_for' m cs [] of Inl e \<Rightarrow> Inl e
        | Inr ys \<Rightarrow> Inr (((if b then [c] else []) @ found) @ ys))" .
    obtain ys where rest: "find_all_for' m cs [] = Inr ys"
      and xs: "xs = ((if b then [c] else []) @ found) @ ys"
      using all unfolding eq by (cases "find_all_for' m cs []") simp_all
    have ff: "find_first' m c = Inr (head_opt found)"
      using C1 found by simp
    have fr: "find_first_for' m cs = Inr (head_opt ys)"
      using IH rest by simp
    show ?thesis
    proof (cases b)
      case True
      then show ?thesis using b xs by simp
    next
      case False
      then show ?thesis using b ff fr xs by (cases found) simp_all
    qed
  qed
  have goal2: "find_all_for' m (c # cs) [] = Inr []"
    if first: "find_first_for' m (c # cs) = Inr None"
  proof -
    have b: "matches m (Some c) = Inr False"
      using first by (cases "matches m (Some c)") (simp_all split: bool.splits)
    have ff: "find_first' m c = Inr None"
      using first b by (cases "find_first' m c") (simp_all split: option.splits)
    have fr: "find_first_for' m cs = Inr None"
      using first b ff by simp
    have found: "find_all' m c = Inr []"
      using C2 ff by simp
    have rest: "find_all_for' m cs [] = Inr []"
      using IH fr by simp
    show ?thesis using b found rest by simp
  qed
  show ?case using goal1 goal2 by blast
qed

lemma find_first'_head:
  "(\<forall>xs. find_all' m e = Inr xs \<longrightarrow> find_first' m e = Inr (head_opt xs)) \<and>
   (find_first' m e = Inr None \<longrightarrow> find_all' m e = Inr [])"
proof (induction e)
  case (Element w cs)
  have "(\<forall>xs. find_all_for' m cs [] = Inr xs \<longrightarrow> find_first_for' m cs = Inr (head_opt xs)) \<and>
         (find_first_for' m cs = Inr None \<longrightarrow> find_all_for' m cs [] = Inr [])"
  proof (rule find_first'_head_list)
    show "\<And>x ys. x \<in> set cs \<Longrightarrow> find_all' m x = Inr ys \<Longrightarrow> find_first' m x = Inr (head_opt ys)"
      using Element.IH by blast
    show "\<And>x. x \<in> set cs \<Longrightarrow> find_first' m x = Inr None \<Longrightarrow> find_all' m x = Inr []"
      using Element.IH by blast
  qed
  then show ?case by simp
qed

lemma find_all_for'_True:
  "(\<And>x. x \<in> set cs \<Longrightarrow> find_all' TrueCondition x = Inr (preorder_descendants x)) \<Longrightarrow>
   find_all_for' TrueCondition cs acc =
     Inr (acc @ concat (map (\<lambda>c. c # preorder_descendants c) cs))"
  by (induction cs arbitrary: acc) (simp_all add: matches_def)

lemma find_all'_True: "find_all' TrueCondition e = Inr (preorder_descendants e)"
  by (induction e) (simp add: find_all_for'_True)



subsection \<open>A sample tree\<close>

text \<open>
  A root with the children \<open>[c1, c2]\<close>, where \<open>c1\<close> has the single child \<open>g1\<close>; all
  four windows belong to process 7.
\<close>

definition sample_g1 :: Element where
  "sample_g1 = Element (sample_window 3 7 ''Static'' ''label'') []"
definition sample_c1 :: Element where
  "sample_c1 = Element (sample_window 2 7 ''Button'' ''OK'') [sample_g1]"
definition sample_c2 :: Element where
  "sample_c2 = Element (sample_window 4 7 ''Edit'' '''') []"
definition sample_root :: Element where
  "sample_root = Element (sample_window 1 7 ''Frame'' ''Main'') [sample_c1, sample_c2]"
definition pid_7 :: Condition where
  "pid_7 = Condition_default\<lparr>pid := Some 7\<rparr>"

lemmas sample_defs = sample_g1_def sample_c1_def sample_c2_def sample_root_def

lemma sample_children:
  "Element_children sample_root = Inr [sample_c1, sample_c2]"
  "Element_children sample_c1 = Inr [sample_g1]"
  "Element_children sample_g1 = Inr []"
  "Element_children sample_c2 = Inr []"
  by (simp_all add: sample_defs Element_children_def sample_window_def)

lemma sample_satisfies:
  "satisfies sample_c1 pid_7 = Inr True"
  "satisfies sample_g1 pid_7 = Inr True"
  "satisfies sample_c2 pid_7 = Inr True"
  by (simp_all add: sample_defs pid_7_def satisfies_def Condition_default_def truthy_int_def
        truthy_str_def ebind_def sample_window_def Element_pid_def GetWindowThreadProcessId_def)

lemma sample_enumerable: "enumerable sample_root"
  by (simp add: sample_defs Element_children_def sample_window_def)


subsection \<open>Conjunction of refinements\<close>

text \<open>
  C1. A condition with several refinements should match an element only if every
  refinement holds of it. \<^verbatim>\<open>satisfies\<close> and \<^verbatim>\<open>matches\<close> assign
  \<open>result\<close> anew for each refinement present, so the last one decides: a window of
  process 2 titled ``Save'' is accepted by the condition ``process 1 and title save'',
  although its process id differs.
\<close>

theorem satisfies_last_refinement_wins:
  "Element_pid (sample_window 100 2 ''Edit'' ''Save'') = Inr 2 \<and>
   satisfies (Element (sample_window 100 2 ''Edit'' ''Save'') [])
     (Condition_default\<lparr>pid := Some 1, title := Some (Str ''save'')\<rparr>) = Inr True \<and>
   matches (PlainCondition (Condition_default\<lparr>pid := Some 1, title := Some (Str ''save'')\<rparr>))
     (Some (Element (sample_window 100 2 ''Edit'' ''Save'') [])) = Inr True"
  by code_simp


subsection \<open>Order of the results\<close>





text \<open>
  C5. Whenever \<^verbatim>\<open>find_all\<close> returns a non-empty list, \<^verbatim>\<open>find_first\<close> returns its
  first element, and \<^verbatim>\<open>find_first\<close> returns \<^verbatim>\<open>None\<close> exactly when
  \<^verbatim>\<open>find_all\<close> returns the empty list; this holds in the current file and in the
  earlier one. With the match-everything condition, on an element that has a child,
  \<^verbatim>\<open>find_all\<close> is non-empty and \<^verbatim>\<open>find_first\<close> is its head.
\<close>

theorem find_first_is_first_of_find_all:
  "(find_all c e = Inr (x # xs) \<longrightarrow> find_first c e = Inr (Some x)) \<and>
   ((find_first c e = Inr None) = (find_all c e = Inr [])) \<and>
   (find_all' m e = Inr (y # ys) \<longrightarrow> find_first' m e = Inr (Some y)) \<and>
   ((find_first' m e = Inr None) = (find_all' m e = Inr [])) \<and>
   (child_windows e \<noteq> [] \<longrightarrow>
      (\<exists>z zs. find_all' TrueCondition e = Inr (z # zs) \<and>
               find_first' TrueCondition e = Inr (Some z)))"
proof (intro conjI impI)
  assume "find_all c e = Inr (x # xs)"
  then show "find_first c e = Inr (Some x)"
    by (cases "ifind_all c e")
       (auto simp: find_first_first_yield find_all_def split: option.splits)
next
  show "(find_first c e = Inr None) = (find_all c e = Inr [])"
    by (cases "ifind_all c e")
       (auto simp: find_first_first_yield find_all_def first_yield_def
             split: option.splits list.splits)
next
  assume "find_all' m e = Inr (y # ys)"
  then show "find_first' m e = Inr (Some y)"
    using find_first'_head [of m e] by simp
next
  show "(find_first' m e = Inr None) = (find_all' m e = Inr [])"
    using find_first'_head [of m e] by auto
next
  assume ne: "child_windows e \<noteq> []"
  obtain w k ks where e: "e = Element w (k # ks)"
    using ne by (cases e; cases "child_windows e") simp_all
  have all: "find_all' TrueCondition e = Inr (k # preorder_descendants k @ concat (map (\<lambda>c. c # preorder_descendants c) ks))"
    by (subst find_all'_True) (simp add: e)
  have first: "find_first' TrueCondition e = Inr (Some k)"
    by (simp add: e matches_def)
  show "\<exists>z zs. find_all' TrueCondition e = Inr (z # zs) \<and>
               find_first' TrueCondition e = Inr (Some z)"
    using all first by blast
qed


theorem find_first_is_first_of_find_all_witness:
  "find_all pid_7 sample_root = Inr (sample_c1 # [sample_g1, sample_c2]) \<and>
   find_first pid_7 sample_root = Inr (Some sample_c1) \<and>
   child_windows sample_root \<noteq> [] \<and>
   find_all' TrueCondition sample_root = Inr (sample_c1 # [sample_g1, sample_c2]) \<and>
   find_first' TrueCondition sample_root = Inr (Some sample_c1)"
proof -
  have a: "find_all pid_7 sample_root = Inr (sample_c1 # [sample_g1, sample_c2])"
    by (simp add: find_all_def ifind_all.simps(1) sample_children sample_satisfies)
  have b: "find_all' TrueCondition sample_root = Inr (sample_c1 # [sample_g1, sample_c2])"
    by (simp add: sample_defs matches_def)
  have c: "child_windows sample_root \<noteq> []"
    by (simp add: sample_defs)
  show ?thesis
    using find_first_is_first_of_find_all
      [of pid_7 sample_root sample_c1 "[sample_g1, sample_c2]" TrueCondition sample_c1
          "[sample_g1, sample_c2]"] a b c
    by simp
qed


subsection \<open>The condition without refinements\<close>

text \<open>
  C10. A condition of the window-handle backend with no refinement matches no element:
  \<^verbatim>\<open>satisfies\<close> and \<^verbatim>\<open>matches\<close> answer \<^verbatim>\<open>False\<close> without reading
  anything from the window, so no search ever returns an element for it; the searches
  of the earlier file return \<^verbatim>\<open>None\<close> and the empty list, and so do those of the
  current file on every tree whose child enumerations succeed (a failing enumeration
  raises its own \<^verbatim>\<open>WinError\<close>, whatever the condition).
\<close>

theorem empty_condition_matches_nothing:
  "satisfies e Condition_default = Inr False \<and>
   matches (PlainCondition Condition_default) (Some e) = Inr False \<and>
   find_first' (PlainCondition Condition_default) e = Inr None \<and>
   find_all' (PlainCondition Condition_default) e = Inr [] \<and>
   find_first Condition_default e \<noteq> Inr (Some x) \<and>
   (enumerable e \<longrightarrow>
      find_first Condition_default e = Inr None \<and> find_all Condition_default e = Inr [])"
proof (intro conjI impI)
  show "find_first Condition_default e \<noteq> Inr (Some x)"
    using ifind_all_default_yields [of e]
    by (cases "ifind_all Condition_default e")
       (auto simp: find_first_first_yield first_yield_def split: option.splits)
next
  assume "enumerable e"
  then have run: "ifind_all Condition_default e = ([], None)"
    by (rule ifind_all_default)
  show "find_first Condition_default e = Inr None"
    by (simp add: find_first_first_yield run)
  show "find_all Condition_default e = Inr []"
    by (simp add: find_all_def run)
qed (simp_all add: satisfies_default matches_default find_first'_default find_all'_default)


theorem empty_condition_matches_nothing_witness:
  "enumerable sample_root \<and>
   find_first Condition_default sample_root = Inr None \<and>
   find_all Condition_default sample_root = Inr []"
  using empty_condition_matches_nothing [of sample_root] sample_enumerable
  by simp

subsection \<open>The centre of a rectangle\<close>

text \<open>
  C9, as the code has it. The centre of a rectangle with area lies in its closed box
  provided its edges are ordered (\<open>left \<le> right\<close> and \<open>top \<le> bottom\<close>), which
  \<^verbatim>\<open>Rect\<close> does not check.
\<close>

theorem center_in_box:
  "has_area r \<Longrightarrow> rect_left r \<le> rect_right r \<Longrightarrow> rect_top r \<le> rect_bottom r \<Longrightarrow>
   in_box r (center r)"
  by (auto simp add: in_box_def center_def width_def height_def int_half_def)

theorem center_in_box_witness:
  "has_area (Rect_init (0, 0, 3, 5)) \<and>
   rect_left (Rect_init (0, 0, 3, 5)) \<le> rect_right (Rect_init (0, 0, 3, 5)) \<and>
   rect_top (Rect_init (0, 0, 3, 5)) \<le> rect_bottom (Rect_init (0, 0, 3, 5)) \<and>
   center (Rect_init (0, 0, 3, 5)) = Point 1 2 \<and>
   in_box (Rect_init (0, 0, 3, 5)) (center (Rect_init (0, 0, 3, 5)))"
proof -
  have a: "has_area (Rect_init (0, 0, 3, 5))"
    by (simp add: has_area_def Rect_init_def c_long_def)
  have b: "rect_left (Rect_init (0, 0, 3, 5)) \<le> rect_right (Rect_init (0, 0, 3, 5))"
    by (simp add: Rect_init_def c_long_def)
  have c: "rect_top (Rect_init (0, 0, 3, 5)) \<le> rect_bottom (Rect_init (0, 0, 3, 5))"
    by (simp add: Rect_init_def c_long_def)
  have d: "center (Rect_init (0, 0, 3, 5)) = Point 1 2"
    by (simp add: center_def width_def height_def int_half_def Rect_init_def c_long_def)
  show ?thesis
    using center_in_box [OF a b c] a b c d by simp
qed

text \<open>
  A rectangle whose right edge lies left of its left edge has area in the sense of
  \<^verbatim>\<open>has_area\<close> (both differences are non-zero), and its centre \<open>(5, 5)\<close> is outside
  the box \<open>[10, 0] \<times> [0, 10]\<close>, which is empty.
\<close>

theorem center_outside_box_of_inverted_rect:
  "has_area (Rect_init (10, 0, 0, 10)) \<and>
   center (Rect_init (10, 0, 0, 10)) = Point 5 5 \<and>
   \<not> in_box (Rect_init (10, 0, 0, 10)) (center (Rect_init (10, 0, 0, 10)))"
  by (simp add: has_area_def Rect_init_def c_long_def in_box_def center_def width_def
        height_def int_half_def)


section \<open>Properties of window enumeration\<close>

text \<open>
  C3, as the code has it. An exception raised inside the caller's callback is caught in
  \<^verbatim>\<open>_callback\<close>, for \<^verbatim>\<open>EnumWindows\<close> and for \<^verbatim>\<open>EnumChildWindows\<close> alike,
  and does not reach the platform: \<^verbatim>\<open>_callback\<close> returns 1, the value that asks
  the platform to continue, and the enumeration goes on with the next handle.
\<close>

theorem callback_exception_means_continue:
  "callback h s = Some (Inl e, s') \<Longrightarrow>
   EnumWindows_callback callback h s = Some (1, s') \<and>
   EnumChildWindows_callback callback h s = Some (1, s') \<and>
   enum_native (EnumWindows_callback callback) (h # hs) s =
     enum_native (EnumWindows_callback callback) hs s' \<and>
   enum_native (EnumChildWindows_callback callback) (h # hs) s =
     enum_native (EnumChildWindows_callback callback) hs s'"
  by (simp add: EnumWindows_callback_def EnumChildWindows_callback_def)


theorem callback_exception_means_continue_witness:
  "raising_on_1 1 [] = Some (Inl ValueError, []) \<and>
   EnumWindows_callback raising_on_1 1 [] = Some (1, []) \<and>
   EnumChildWindows_callback raising_on_1 1 [] = Some (1, []) \<and>
   enum_native (EnumWindows_callback raising_on_1) [1, 2] [] =
     enum_native (EnumWindows_callback raising_on_1) [2] []"
proof -
  have h: "raising_on_1 1 [] = Some (Inl ValueError, [])"
    by (simp add: raising_on_1_def)
  show ?thesis
    using callback_exception_means_continue [of raising_on_1 1 "[]" ValueError "[]" "[2]"] h
    by simp
qed


text \<open>
  The value returned for a raising callback is not 0, the value that stops an
  enumeration: after the callback raised on handle 1, handle 2 is still visited and the
  enumeration ends without having been stopped.
\<close>

theorem callback_exception_does_not_stop:
  "raising_on_1 1 [] = Some (Inl ValueError, []) \<and>
   EnumWindows_callback raising_on_1 1 [] \<noteq> Some (0, []) \<and>
   EnumChildWindows_callback raising_on_1 1 [] \<noteq> Some (0, []) \<and>
   enum_native (EnumWindows_callback raising_on_1) [1, 2] [] = Some (False, [2]) \<and>
   EnumWindows [1, 2] (\<lambda>stopped. (1, 0)) raising_on_1 [] = Some (Inr (), [2]) \<and>
   EnumChildWindows [1, 2] (\<lambda>stopped. (1, 0)) raising_on_1 [] = Some (Inr (), [2])"
  by (simp add: raising_on_1_def EnumWindows_callback_def EnumChildWindows_callback_def
        EnumWindows_def EnumChildWindows_def)


section \<open>Properties of the accessibility conditions\<close>

text \<open>
  An engine for examples: its native conditions are the terms that describe them, and
  no call fails.
\<close>

datatype native_condition =
    PropertyCondition Property property_value
  | AndCondition "native_condition list"
  | TrueNative

definition symbolic_uia :: "native_condition IUIAutomation" where
  "symbolic_uia =
     \<lparr>CreatePropertyConditionEx = (\<lambda>p v. Inr (PropertyCondition p v)),
      CreateAndConditionFromArray = (\<lambda>cs. Inr (AndCondition cs)),
      CreateTrueCondition = Inr TrueNative\<rparr>"

lemma com_not_created [simp]: "com r \<noteq> Inl UIAConditionNotCreatedError"
  by (cases r) (simp_all add: com_def)

lemma ebind_not_created:
  "m \<noteq> Inl UIAConditionNotCreatedError \<Longrightarrow>
   (\<And>v. m = Inr v \<Longrightarrow> f v \<noteq> Inl UIAConditionNotCreatedError) \<Longrightarrow>
   ebind m f \<noteq> Inl UIAConditionNotCreatedError"
  by (cases m) (simp_all add: ebind_def)

lemma create_property_condition'_not_created [simp]:
  "create_property_condition' uia p v \<noteq> Inl UIAConditionNotCreatedError"
  by (simp add: create_property_condition'_def ebind_not_created)

lemma condition_from_array_not_created [simp]:
  "condition_from_array uia cs \<noteq> Inl UIAConditionNotCreatedError"
  by (simp add: condition_from_array_def Let_def ebind_not_created)

lemma append_one_not_created:
  "ebind (create_property_condition' uia p v) (\<lambda>c. Inr (xs @ [c])) = Inr ys \<Longrightarrow> ys \<noteq> []"
  by (cases "create_property_condition' uia p v") (auto simp: ebind_def)

lemma create_condition_not_created:
  "create_condition uia p ct cn t \<noteq> Inl UIAConditionNotCreatedError"
proof (cases "\<not> truthy_int p \<and> \<not> truthy_int ct \<and> \<not> truthy_str cn
         \<and> \<not> (case t of None \<Rightarrow> False | Some (Str t) \<Rightarrow> t \<noteq> [] | Some (Pattern p) \<Rightarrow> True)")
  case True
  then show ?thesis by (simp add: create_condition_def)
next
  case False
  let ?s1 = "if truthy_int p
              then ebind (create_property_condition' uia ProcessId (IntValue (the p)))
                     (\<lambda>c. Inr [c])
              else Inr []"
  show ?thesis
    unfolding create_condition_def
    apply (simp only: False if_False)
    apply (rule ebind_not_created)
     apply (simp add: ebind_not_created)
    apply (rule ebind_not_created)
     apply (simp add: ebind_not_created)
    apply (rule ebind_not_created)
     apply (simp add: ebind_not_created)
    apply (rule ebind_not_created)
     apply (simp add: ebind_not_created split: option.splits title_spec.splits)
    subgoal premises prems for c1 c2 c3 c4
    proof -
      have "c4 \<noteq> []"
        using prems False
        by (auto simp: ebind_def split: if_splits option.splits title_spec.splits sum.splits)
      then show ?thesis by (cases c4) simp_all
    qed
    done
qed


lemma refine_conditions:
  "refine uia c p v = Inr c' \<Longrightarrow>
   length (conditions c') = Suc (length (conditions c)) \<and> native_opt c' = None"
  by (auto simp: refine_def ebind_def create_property_condition_def split: sum.splits)

lemma apply_refinement_conditions:
  "apply_refinement uia c r = Inr c' \<Longrightarrow>
   length (conditions c') = Suc (length (conditions c)) \<and> native_opt c' = None"
  by (cases r)
     (auto simp: UIACondition_pid_def UIACondition_control_type_def UIACondition_class_name_def
        UIACondition_title_def dest: refine_conditions)

lemma chain_conditions:
  "chain uia c rs = Inr c' \<Longrightarrow>
   length (conditions c') = length (conditions c) + length rs \<and>
   (rs \<noteq> [] \<longrightarrow> native_opt c' = None)"
proof (induction rs arbitrary: c)
  case Nil
  then show ?case by simp
next
  case (Cons r rs)
  from Cons.prems obtain c1 where c1: "apply_refinement uia c r = Inr c1"
    and rest: "chain uia c1 rs = Inr c'"
    by (cases "apply_refinement uia c r") (simp_all add: ebind_def)
  from apply_refinement_conditions [OF c1] Cons.IH [OF rest]
  show ?case by (cases rs) (use rest in auto)
qed

lemma native_nonempty:
  "conditions c \<noteq> [] \<Longrightarrow> native uia c \<noteq> Inl UIAConditionNotCreatedError"
  by (simp add: native_def split: option.splits)


text \<open>
  C6, as the code has it. In the current backend, materializing a condition built by a
  chain of refinements fails with \<^verbatim>\<open>UIAConditionNotCreatedError\<close> when the chain is
  empty, and not with that error when it has at least one refinement; the
  match-everything sentinel materializes. The factory of the earlier backend rejects a
  call without refinements by \<^verbatim>\<open>ValueError\<close>, and never raises
  \<^verbatim>\<open>UIAConditionNotCreatedError\<close>.
\<close>

theorem native_of_chain:
  "native uia UIACondition_init = Inl UIAConditionNotCreatedError \<and>
   (chain uia UIACondition_init rs = Inr c \<longrightarrow>
      (rs = [] \<longrightarrow> native uia c = Inl UIAConditionNotCreatedError) \<and>
      (rs \<noteq> [] \<longrightarrow> native uia c \<noteq> Inl UIAConditionNotCreatedError)) \<and>
   (TRUE_CONDITION uia = Inr t \<longrightarrow> (\<exists>n. native uia t = Inr n)) \<and>
   create_condition uia None None None None = Inl ValueError \<and>
   create_condition uia p ct cn ti \<noteq> Inl UIAConditionNotCreatedError"
proof (intro conjI impI)
  show "native uia UIACondition_init = Inl UIAConditionNotCreatedError"
    by (simp add: native_def UIACondition_init_def)
next
  assume "chain uia UIACondition_init rs = Inr c" "rs = []"
  then show "native uia c = Inl UIAConditionNotCreatedError"
    by (auto simp: native_def UIACondition_init_def)
next
  assume ch: "chain uia UIACondition_init rs = Inr c" and ne: "rs \<noteq> []"
  have "conditions c \<noteq> []"
    using chain_conditions [OF ch] ne by (cases rs) auto
  then show "native uia c \<noteq> Inl UIAConditionNotCreatedError"
    by (rule native_nonempty)
next
  assume "TRUE_CONDITION uia = Inr t"
  then show "\<exists>n. native uia t = Inr n"
    by (auto simp: TRUE_CONDITION_def ebind_def native_def split: sum.splits)
next
  show "create_condition uia None None None None = Inl ValueError"
    by (simp add: create_condition_def truthy_int_def truthy_str_def)
next
  show "create_condition uia p ct cn ti \<noteq> Inl UIAConditionNotCreatedError"
    by (rule create_condition_not_created)
qed


definition window_titled :: "native_condition UIACondition" where
  "window_titled =
     \<lparr>native_opt = None,
      conditions = [PropertyCondition ControlType (IntValue 50032),
                    PropertyCondition Title (StrValue ''This PC'')],
      reprs = [(ControlType, IntValue 50032), (Title, StrValue ''This PC'')]\<rparr>"

theorem native_of_chain_witness:
  "chain symbolic_uia UIACondition_init [ByControlType 50032, ByTitle ''This PC'']
     = Inr window_titled \<and>
   native symbolic_uia window_titled =
     Inr (AndCondition [PropertyCondition ControlType (IntValue 50032),
                        PropertyCondition Title (StrValue ''This PC'')]) \<and>
   TRUE_CONDITION symbolic_uia =
     Inr \<lparr>native_opt = Some TrueNative, conditions = [], reprs = []\<rparr> \<and>
   native symbolic_uia \<lparr>native_opt = Some TrueNative, conditions = [], reprs = []\<rparr>
     = Inr TrueNative"
proof -
  have a: "chain symbolic_uia UIACondition_init [ByControlType 50032, ByTitle ''This PC'']
     = Inr window_titled"
    by (simp add: window_titled_def UIACondition_init_def UIACondition_control_type_def
          UIACondition_title_def refine_def create_property_condition_def com_def ebind_def
          symbolic_uia_def)
  have b: "TRUE_CONDITION symbolic_uia =
     Inr \<lparr>native_opt = Some TrueNative, conditions = [], reprs = []\<rparr>"
    by (simp add: TRUE_CONDITION_def com_def ebind_def symbolic_uia_def)
  have c: "native symbolic_uia window_titled =
     Inr (AndCondition [PropertyCondition ControlType (IntValue 50032),
                        PropertyCondition Title (StrValue ''This PC'')])"
    by (simp add: native_def window_titled_def com_def symbolic_uia_def)
  have d: "native symbolic_uia \<lparr>native_opt = Some TrueNative, conditions = [], reprs = []\<rparr>
     = Inr TrueNative"
    by (simp add: native_def)
  show ?thesis
    using native_of_chain
      [of symbolic_uia "[ByControlType 50032, ByTitle ''This PC'']" window_titled
          "\<lparr>native_opt = Some TrueNative, conditions = [], reprs = []\<rparr>"] a b c d
    by simp
qed


text \<open>
  \<^verbatim>\<open>create_condition()\<close> of the earlier backend, called without refinements,
  raises \<^verbatim>\<open>ValueError\<close>, not \<^verbatim>\<open>UIAConditionNotCreatedError\<close>.
\<close>

theorem create_condition_without_arguments:
  "create_condition symbolic_uia None None None None = Inl ValueError \<and>
   create_condition symbolic_uia None None None None \<noteq> Inl UIAConditionNotCreatedError"
  by (simp add: create_condition_def truthy_int_def truthy_str_def)



section \<open>Properties of the tree walker\<close>














subsection \<open>Sample trees with a stale node\<close>
















section \<open>Properties of focus acquisition\<close>


subsection \<open>A sample desktop\<close>




















subsection \<open>Attach, normalise, detach\<close>

lemma native_call_fields [simp]:
  "win (snd (native_call c s)) = win s"
  "respond (snd (native_call c s)) = respond s"
  "calls (snd (native_call c s)) = calls s @ [c]"
  "IsIconic_raw (snd (native_call c s)) = IsIconic_raw s"
  "IsZoomed_raw (snd (native_call c s)) = IsZoomed_raw s"
  by (simp_all add: native_call_def)
















end
